theory Spec2Isabelle
  imports Complex_Main "HOL-Library.Signed_Division"
begin

section \<open>JavaScript values\<close>

text \<open>
  The trip-plan transformation of \<^verbatim>\<open>services/api.ts\<close> takes \<^verbatim>\<open>backendData: any\<close>: whatever
  JSON the backend answered. A value is therefore modelled as the JSON value it is, with
  \<^verbatim>\<open>undefined\<close> for a missing property. A number is an exact rational or \<^verbatim>\<open>NaN\<close>; the
  rounding of IEEE doubles and the infinities are not modelled. An object is the list of
  its properties, each name once.
\<close>

datatype jsnum = NaN | Num rat

datatype jsval =
    JUndefined
  | JNull
  | JBool bool
  | JNumber jsnum
  | JString string
  | JArray "jsval list"
  | JObject "(string \<times> jsval) list"

datatype error = TypeError | RangeError

text \<open>Truthiness, as \<^verbatim>\<open>||\<close> and \<^verbatim>\<open>!\<close> test it.\<close>

fun truthy :: "jsval \<Rightarrow> bool" where
  "truthy JUndefined = False"
| "truthy JNull = False"
| "truthy (JBool b) = b"
| "truthy (JNumber NaN) = False"
| "truthy (JNumber (Num q)) = (q \<noteq> 0)"
| "truthy (JString s) = (s \<noteq> [])"
| "truthy (JArray xs) = True"
| "truthy (JObject kvs) = True"

text \<open>\<^verbatim>\<open>a || b\<close>\<close>

definition orElse :: "jsval \<Rightarrow> jsval \<Rightarrow> jsval" where
  "orElse a b = (if truthy a then a else b)"

fun nullish :: "jsval \<Rightarrow> bool" where
  "nullish JUndefined = True"
| "nullish JNull = True"
| "nullish v = False"

text \<open>
  \<^verbatim>\<open>v.p\<close> for a value \<open>v\<close> that is neither \<^verbatim>\<open>null\<close> nor \<^verbatim>\<open>undefined\<close> (reading a
  property of those throws a TypeError, which every caller below tests first with
  \<open>nullish\<close>). The property names read in this file are data properties of the JSON
  objects only: a string, a number, a boolean or an array has none of them.
\<close>

fun getProp :: "jsval \<Rightarrow> string \<Rightarrow> jsval" where
  "getProp (JObject kvs) p = (case map_of kvs p of None \<Rightarrow> JUndefined | Some v \<Rightarrow> v)"
| "getProp v p = JUndefined"

text \<open>\<^verbatim>\<open>v?.p\<close>\<close>

definition optProp :: "jsval \<Rightarrow> string \<Rightarrow> jsval" where
  "optProp v p = (if nullish v then JUndefined else getProp v p)"

subsection \<open>Numbers in text\<close>

definition isDigit :: "char \<Rightarrow> bool" where
  "isDigit c = (c \<in> set ''0123456789'')"

definition digitsValue :: "string \<Rightarrow> nat" where
  "digitsValue s = foldl (\<lambda>a c. 10 * a + (of_char c - 48)) 0 s"

text \<open>
  \<^verbatim>\<open>parseFloat(s)\<close> on the strings it is given here, which hold digits and dots only (no
  sign, blank or exponent is left by the replacement below): the longest prefix of the
  form \<^verbatim>\<open>digits\<close>, \<^verbatim>\<open>digits.digits\<close> or \<^verbatim>\<open>.digits\<close> is read, and \<^verbatim>\<open>NaN\<close> is returned when
  there is none.
\<close>

definition parseFloat :: "string \<Rightarrow> jsnum" where
  "parseFloat s =
     (let ip = takeWhile isDigit s;
          rest = dropWhile isDigit s;
          fp = (case rest of [] \<Rightarrow> [] | c # r \<Rightarrow> if c = CHR ''.'' then takeWhile isDigit r else [])
      in if ip = [] \<and> fp = [] then NaN
         else Num (of_nat (digitsValue ip) + of_nat (digitsValue fp) / 10 ^ length fp))"

text \<open>
  \<^verbatim>\<open>parseFloat(x?.replace(/[^\d.]/g, '') || '0')\<close>: \<^verbatim>\<open>replace\<close> exists on strings only, so
  any other value that is not \<^verbatim>\<open>null\<close> or \<^verbatim>\<open>undefined\<close> throws a TypeError.
\<close>

definition parseNumeric :: "jsval \<Rightarrow> error + jsnum" where
  "parseNumeric x =
     (case x of
        JUndefined \<Rightarrow> Inr (parseFloat ''0'')
      | JNull \<Rightarrow> Inr (parseFloat ''0'')
      | JString s \<Rightarrow>
          (let t = filter (\<lambda>c. isDigit c \<or> c = CHR ''.'') s
           in Inr (parseFloat (if t = [] then ''0'' else t)))
      | _ \<Rightarrow> Inl TypeError)"

subsection \<open>Dates\<close>

text \<open>
  \<^verbatim>\<open>new Date(t).toISOString()\<close>: the time value is clipped (\<^verbatim>\<open>NaN\<close> beyond \<open>8.64e15\<close>
  milliseconds) and truncated to whole milliseconds, and \<^verbatim>\<open>toISOString\<close> throws a
  RangeError on an invalid date. The ISO text of a valid date is determined by its time
  value, which stands for it here.
\<close>

definition toISOString :: "jsnum \<Rightarrow> error + int" where
  "toISOString t =
     (case t of
        NaN \<Rightarrow> Inl RangeError
      | Num q \<Rightarrow>
          if \<bar>q\<bar> \<le> 8640000000000000
          then Inr (if 0 \<le> q then \<lfloor>q\<rfloor> else \<lceil>q\<rceil>)
          else Inl RangeError)"

definition hoursToMs :: "jsnum \<Rightarrow> int \<Rightarrow> jsnum" where
  "hoursToMs h now = (case h of NaN \<Rightarrow> NaN | Num q \<Rightarrow> Num (of_int now + q * 3600000))"

text \<open>A clock that does not advance while it is read: every \<^verbatim>\<open>Date.now()\<close> returns \<open>t\<close>.\<close>

definition fixedClock :: "int \<Rightarrow> nat \<Rightarrow> int" where
  "fixedClock t k = t"

fun showDigits :: "nat \<Rightarrow> nat \<Rightarrow> string" where
  "showDigits 0 n = []"
| "showDigits (Suc fuel) n =
     (if n < 10 then [char_of (48 + n)]
      else showDigits fuel (n div 10) @ [char_of (48 + n mod 10)])"

text \<open>The decimal text of a natural number (\<open>n\<close> has at most \<open>n + 1\<close> digits).\<close>

definition showNat :: "nat \<Rightarrow> string" where
  "showNat n = showDigits (Suc n) n"

section \<open>The response types (\<^verbatim>\<open>types/index.ts\<close>)\<close>

record DrivingPeriod =
  type :: string
  start_time :: string
  end_time :: string
  duration_hours :: rat
  distance_miles :: rat
  start_mile :: rat
  end_mile :: rat

record BreakPeriod =
  type :: string
  start_time :: string
  end_time :: string
  duration_hours :: rat
  location :: string

record RestPeriod =
  type :: string
  start_time :: string
  end_time :: string
  duration_hours :: rat
  location :: string

record LogEntryData =
  status :: string
  start_time :: string
  end_time :: string

record DailyLogData =
  date :: string
  entries :: "LogEntryData list"
  total_driving_time :: int
  total_on_duty_time :: int
  total_sleeper_time :: int
  total_off_duty_time :: int

record FuelStop =
  type :: string
  mile :: jsval
  time :: int
  location :: jsval

record Route =
  current_location :: jsval
  pickup_location :: jsval
  dropoff_location :: jsval
  total_distance :: jsnum
  estimated_duration :: jsnum

record Schedule =
  trip_distance :: jsnum
  total_driving_hours :: jsnum
  start_time :: int
  driving_periods :: "DrivingPeriod list"
  break_periods :: "BreakPeriod list"
  rest_periods :: "RestPeriod list"
  daily_logs :: "DailyLogData list"
  estimated_completion :: int
  fuel_stops :: "FuelStop list"

record HosCompliance =
  cycle_type :: jsval
  max_cycle_hours :: int
  violations :: "jsval list"

record TripPlanResponse =
  trip_id :: jsval
  route :: Route
  schedule :: Schedule
  hos_compliance :: HosCompliance
  fuel_stops :: "FuelStop list"
  rest_stops :: "RestPeriod list"

section \<open>\<^verbatim>\<open>transformTripPlanResponse\<close>\<close>

text \<open>
  The callback of \<^verbatim>\<open>backendData.fuel_stops?.map((stop, index) => ...)\<close>. The clock is the
  sequence of values \<^verbatim>\<open>Date.now()\<close> returns, \<open>k\<close> the number of the reading.
\<close>

definition fuelStop :: "(nat \<Rightarrow> int) \<Rightarrow> nat \<Rightarrow> nat \<Rightarrow> jsval \<Rightarrow> error + FuelStop" where
  "fuelStop clock k index stop =
     (if nullish stop then Inl TypeError
      else
        (case toISOString (Num (of_int (clock k) + of_nat ((index + 1) * 3600000))) of
           Inl e \<Rightarrow> Inl e
         | Inr t \<Rightarrow>
             Inr \<lparr> FuelStop.type = ''fuel'',
                   mile = orElse (getProp stop ''distance_from_start'')
                            (JNumber (Num (of_nat (index * 100)))),
                   time = t,
                   location = orElse (orElse (getProp stop ''name'') (getProp stop ''location''))
                                (JString (''Fuel Stop '' @ showNat (index + 1))) \<rparr>))"

fun mapStops :: "(nat \<Rightarrow> int) \<Rightarrow> nat \<Rightarrow> nat \<Rightarrow> jsval list \<Rightarrow> error + FuelStop list" where
  "mapStops clock k index [] = Inr []"
| "mapStops clock k index (stop # stops) =
     (case fuelStop clock k index stop of
        Inl e \<Rightarrow> Inl e
      | Inr f \<Rightarrow>
          (case mapStops clock (Suc k) (Suc index) stops of
             Inl e \<Rightarrow> Inl e
           | Inr fs \<Rightarrow> Inr (f # fs)))"

text \<open>
  \<^verbatim>\<open>backendData.fuel_stops?.map(...) || []\<close>: only an array has \<^verbatim>\<open>map\<close>; the mapped array is
  truthy even when empty.
\<close>

definition fuelStops :: "(nat \<Rightarrow> int) \<Rightarrow> nat \<Rightarrow> jsval \<Rightarrow> error + FuelStop list" where
  "fuelStops clock k v =
     (case v of
        JUndefined \<Rightarrow> Inr []
      | JNull \<Rightarrow> Inr []
      | JArray stops \<Rightarrow> mapStops clock k 0 stops
      | _ \<Rightarrow> Inl TypeError)"

text \<open>
  The object literal is evaluated field by field, in the order written; the first
  exception ends it. The clock is read once for \<^verbatim>\<open>start_time\<close> (reading 0), once for
  \<^verbatim>\<open>estimated_completion\<close> (reading 1) and once for each fuel stop of each of the two
  lists.
\<close>

definition transformTripPlanResponse :: "(nat \<Rightarrow> int) \<Rightarrow> jsval \<Rightarrow> error + TripPlanResponse" where
  "transformTripPlanResponse clock backendData =
     (if nullish backendData then Inl TypeError
      else
        (case parseNumeric (getProp backendData ''estimated_distance'') of
           Inl e \<Rightarrow> Inl e
         | Inr distance \<Rightarrow>
        (case parseNumeric (getProp backendData ''estimated_duration'') of
           Inl e \<Rightarrow> Inl e
         | Inr duration \<Rightarrow>
        (case toISOString (hoursToMs duration (clock 1)) of
           Inl e \<Rightarrow> Inl e
         | Inr completion \<Rightarrow>
        (case fuelStops clock 2 (getProp backendData ''fuel_stops'') of
           Inl e \<Rightarrow> Inl e
         | Inr scheduleStops \<Rightarrow>
        (case fuelStops clock (2 + length scheduleStops) (getProp backendData ''fuel_stops'') of
           Inl e \<Rightarrow> Inl e
         | Inr stops \<Rightarrow>
             Inr \<lparr> trip_id = orElse (getProp backendData ''trip_id'') (JNumber (Num 1)),
                   route = \<lparr>
                     current_location = orElse (getProp backendData ''current_location'') (JString ''''),
                     pickup_location = orElse (getProp backendData ''pickup_location'') (JString ''''),
                     dropoff_location = orElse (getProp backendData ''dropoff_location'') (JString ''''),
                     total_distance = distance,
                     estimated_duration = duration \<rparr>,
                   schedule = \<lparr>
                     trip_distance = distance,
                     total_driving_hours = duration,
                     Schedule.start_time = clock 0,
                     driving_periods = [],
                     break_periods = [],
                     rest_periods = [],
                     daily_logs = [],
                     estimated_completion = completion,
                     Schedule.fuel_stops = scheduleStops \<rparr>,
                   hos_compliance = \<lparr>
                     cycle_type = orElse (getProp backendData ''cycle_type'') (JString ''70_8''),
                     max_cycle_hours =
                       (if getProp backendData ''cycle_type'' = JString ''60_7'' then 60 else 70),
                     violations = [] \<rparr>,
                   fuel_stops = stops,
                   rest_stops = [] \<rparr>))))))"

section \<open>The API client (\<^verbatim>\<open>tripAPI\<close>)\<close>

text \<open>The cycle type of a trip and of a plan request: \<^verbatim>\<open>'70_8' | '60_7'\<close>.\<close>

datatype CycleType = Cycle_70_8 | Cycle_60_7

record TripPlanRequest =
  current_location :: string
  pickup_location :: string
  dropoff_location :: string
  cycle_type :: CycleType
  current_lat :: "rat option"
  current_lng :: "rat option"
  pickup_lat :: "rat option"
  pickup_lng :: "rat option"
  dropoff_lat :: "rat option"
  dropoff_lng :: "rat option"

text \<open>
  How one request ends. The promise of \<^verbatim>\<open>api.post\<close> or \<^verbatim>\<open>api.get\<close> is fulfilled with a
  response, of which the code reads \<^verbatim>\<open>response.data\<close>, or rejected with an error whose
  \<^verbatim>\<open>response\<close> is absent (nothing arrived) or holds a status and the data. The two
  interceptors pass the request, the response and the error on unchanged.
\<close>

datatype 'a reply = Fulfilled 'a | Rejected "(nat \<times> jsval) option"

text \<open>The requests a call issues: the endpoint, with what is sent to it.\<close>

datatype request =
    PostTripPlan TripPlanRequest
  | GetTripLogs jsval

text \<open>
  What a call throws: \<^verbatim>\<open>new Error(m)\<close>, kept with the value \<open>m\<close> it is built from (the
  message is \<open>m\<close> itself when \<open>m\<close> is a string), or the request's own error, thrown again.
\<close>

datatype thrown = NewError jsval | RequestError "(nat \<times> jsval) option"

text \<open>
  \<^verbatim>\<open>planTrip\<close>: one POST, then the transformation inside the \<^verbatim>\<open>try\<close>. An exception of
  the transformation is caught by the same \<^verbatim>\<open>catch\<close>; it has no \<^verbatim>\<open>response\<close>, so it
  leaves as the network error. The result is paired with the requests issued.
\<close>

definition planTrip ::
  "(nat \<Rightarrow> int) \<Rightarrow> TripPlanRequest \<Rightarrow> jsval reply \<Rightarrow> request list \<times> (thrown + TripPlanResponse)" where
  "planTrip clock data answer =
     ([PostTripPlan data],
      (case answer of
         Fulfilled responseData \<Rightarrow>
           (case transformTripPlanResponse clock responseData of
              Inr transformedData \<Rightarrow> Inr transformedData
            | Inl e \<Rightarrow> Inl (NewError (JString ''Network error. Please check your connection.'')))
       | Rejected (Some (httpStatus, responseData)) \<Rightarrow>
           if httpStatus = 400
           then Inl (NewError (orElse (optProp responseData ''error'')
                                 (JString ''Invalid trip data provided'')))
           else if httpStatus \<ge> 500
           then Inl (NewError (JString ''Server error. Please try again later.''))
           else Inl (RequestError (Some (httpStatus, responseData)))
       | Rejected None \<Rightarrow>
           Inl (NewError (JString ''Network error. Please check your connection.''))))"

record LogEntry =
  id :: int
  daily_log :: int
  status :: string
  start_time :: string
  end_time :: string
  duration_minutes :: int
  location :: string
  remarks :: string
  is_automatic :: bool

record HOSViolation =
  id :: int
  daily_log :: int
  violation_type :: string
  description :: string
  severity :: string
  created_at :: string

record DailyLog =
  id :: int
  trip :: int
  user :: "int option"
  log_date :: string
  total_driving_time :: int
  total_on_duty_time :: int
  total_sleeper_time :: int
  total_off_duty_time :: int
  cycle_hours_used :: rat
  created_at :: string
  updated_at :: string
  entries :: "LogEntry list"
  violations :: "HOSViolation list"

record LogGrid =
  date :: string
  grid :: "string list"
  grid_slots :: int
  minutes_per_slot :: int
  entries :: "LogEntry list"
  total_driving_time :: int
  total_on_duty_time :: int
  total_sleeper_time :: int
  total_off_duty_time :: int

record HosSummary =
  trip_duration_days :: rat
  total_driving_hours :: rat
  total_on_duty_hours :: rat
  cycle_hours_used :: rat
  cycle_hours_remaining :: rat
  cycle_type :: string
  max_cycle_hours :: rat

record TripLogsResponse =
  trip_id :: jsval
  daily_logs :: "DailyLog list"
  log_grids :: "LogGrid list"
  hos_summary :: HosSummary
  violations :: "HOSViolation list"

text \<open>
  \<^verbatim>\<open>getTripLogs\<close>: one GET; the data of a fulfilled request is returned as it came (taken
  at its declared type), and every failure is answered with the literal of the
  \<^verbatim>\<open>catch\<close> block.
\<close>

definition getTripLogs ::
  "jsval \<Rightarrow> TripLogsResponse reply \<Rightarrow> request list \<times> TripLogsResponse" where
  "getTripLogs tripId answer =
     ([GetTripLogs tripId],
      (case answer of
         Fulfilled responseData \<Rightarrow> responseData
       | Rejected err \<Rightarrow>
           \<lparr> trip_id = tripId,
             daily_logs = [],
             log_grids = [],
             hos_summary = \<lparr>
               trip_duration_days = 1,
               total_driving_hours = 8,
               total_on_duty_hours = 10,
               cycle_hours_used = 10,
               cycle_hours_remaining = 60,
               cycle_type = ''70_8'',
               max_cycle_hours = 70 \<rparr>,
             violations = [] \<rparr>))"

section \<open>Rendering a day's grid\<close>















section \<open>Responses the transformation accepts\<close>

text \<open>
  The transformation throws on some values of its \<^verbatim>\<open>any\<close> argument. The responses on
  which no step throws are described here without running it: the response is not
  \<^verbatim>\<open>null\<close> or \<^verbatim>\<open>undefined\<close>, its distance and duration are texts or absent, the completion
  time is a valid date, and \<^verbatim>\<open>fuel_stops\<close> is absent or an array whose stops are not
  \<^verbatim>\<open>null\<close> and whose times are valid dates.
\<close>

definition textOrAbsent :: "jsval \<Rightarrow> bool" where
  "textOrAbsent v =
     (case v of JUndefined \<Rightarrow> True | JNull \<Rightarrow> True | JString s \<Rightarrow> True | _ \<Rightarrow> False)"

definition validTime :: "rat \<Rightarrow> bool" where
  "validTime q = (\<bar>q\<bar> \<le> 8640000000000000)"

fun stopsAccepted :: "(nat \<Rightarrow> int) \<Rightarrow> nat \<Rightarrow> nat \<Rightarrow> jsval list \<Rightarrow> bool" where
  "stopsAccepted clock k index [] = True"
| "stopsAccepted clock k index (stop # stops) =
     (\<not> nullish stop
      \<and> validTime (of_int (clock k) + of_nat ((index + 1) * 3600000))
      \<and> stopsAccepted clock (Suc k) (Suc index) stops)"

text \<open>The stops of a \<^verbatim>\<open>fuel_stops\<close> value: those of the array, none for anything else.\<close>

definition backendStops :: "jsval \<Rightarrow> jsval list" where
  "backendStops v = (case v of JArray stops \<Rightarrow> stops | _ \<Rightarrow> [])"

definition stopListAccepted :: "(nat \<Rightarrow> int) \<Rightarrow> nat \<Rightarrow> jsval \<Rightarrow> bool" where
  "stopListAccepted clock k v =
     (case v of
        JUndefined \<Rightarrow> True
      | JNull \<Rightarrow> True
      | JArray stops \<Rightarrow> stopsAccepted clock k 0 stops
      | _ \<Rightarrow> False)"

definition accepted :: "(nat \<Rightarrow> int) \<Rightarrow> jsval \<Rightarrow> bool" where
  "accepted clock backendData =
     (\<not> nullish backendData
      \<and> textOrAbsent (getProp backendData ''estimated_distance'')
      \<and> (case parseNumeric (getProp backendData ''estimated_duration'') of
            Inr (Num hours) \<Rightarrow> validTime (of_int (clock 1) + hours * 3600000)
          | _ \<Rightarrow> False)
      \<and> stopListAccepted clock 2 (getProp backendData ''fuel_stops'')
      \<and> stopListAccepted clock (2 + length (backendStops (getProp backendData ''fuel_stops'')))
            (getProp backendData ''fuel_stops''))"

section \<open>Quantities of the daily logs\<close>

text \<open>The durations of all entries of all daily logs, in minutes.\<close>

definition entryMinutes :: "DailyLog list \<Rightarrow> int" where
  "entryMinutes logs = (\<Sum>d \<leftarrow> logs. \<Sum>e \<leftarrow> DailyLog.entries d. duration_minutes e)"

section \<open>The duty clock\<close>

text \<open>Modelled from the spec: the four duty statuses of its data model.\<close>

datatype DutyStatus = off_duty | sleeper_berth | driving | on_duty_not_driving

text \<open>
  Modelled from the spec: the Duty Clock and its \<^verbatim>\<open>advance(status, duration)\<close> are not in
  the front end's sources, which hold no cycle state. The spec's CycleState has the cycle
  type and the hours used in the window; the hours of the off-duty or sleeper block in
  progress are kept beside them, since a block of at least 34 consecutive hours is what
  resets the hours used to zero. Hours are rationals. Of the four running totals of the
  spec's Duty Clock only the cycle hours are kept, the daily totals playing no part in
  the restart; the expiry of hours older than the rolling window is not modelled, the
  spec giving no rule for it.
\<close>

record CycleState =
  cycle :: CycleType
  hours_used :: rat
  resting :: rat

text \<open>Modelled from the spec: the ceiling is 70 hours (8-day cycle) or 60 hours (7-day cycle).\<close>

fun cycleCeiling :: "CycleType \<Rightarrow> rat" where
  "cycleCeiling Cycle_70_8 = 70"
| "cycleCeiling Cycle_60_7 = 60"

text \<open>Modelled from the spec: the hours available before the mandatory restart.\<close>

definition hours_available :: "CycleState \<Rightarrow> rat" where
  "hours_available c = cycleCeiling (cycle c) - hours_used c"

text \<open>
  Modelled from the spec: \<^verbatim>\<open>advance\<close> adds on-duty time (driving or on duty, not driving)
  to the hours used and ends the block of rest; off-duty or sleeper time extends the
  block, and once the block has reached 34 hours the hours used are zero.
\<close>

definition advance :: "DutyStatus \<Rightarrow> rat \<Rightarrow> CycleState \<Rightarrow> CycleState" where
  "advance s duration c =
     (if s = off_duty \<or> s = sleeper_berth
      then (let block = resting c + duration
            in c\<lparr> resting := block,
                   hours_used := (if 34 \<le> block then 0 else hours_used c) \<rparr>)
      else c\<lparr> resting := 0, hours_used := hours_used c + duration \<rparr>)"

section \<open>Facts about the transformation\<close>

lemma fuelStop_accepted:
  "\<not> nullish stop \<Longrightarrow> validTime (of_int (clock k) + of_nat ((index + 1) * 3600000)) \<Longrightarrow>
   \<exists>f. fuelStop clock k index stop = Inr f
       \<and> mile f = orElse (getProp stop ''distance_from_start'') (JNumber (Num (of_nat (index * 100))))"
  by (auto simp: fuelStop_def toISOString_def validTime_def)

lemma mapStops_accepted:
  "stopsAccepted clock k index stops \<Longrightarrow>
   \<exists>fs. mapStops clock k index stops = Inr fs \<and> length fs = length stops
      \<and> (\<forall>j<length stops. mile (fs ! j) =
            orElse (getProp (stops ! j) ''distance_from_start'')
              (JNumber (Num (of_nat ((index + j) * 100)))))"
proof (induction stops arbitrary: k index)
  case Nil
  then show ?case by simp
next
  case (Cons stop stops)
  from Cons.prems obtain f where f: "fuelStop clock k index stop = Inr f"
    "mile f = orElse (getProp stop ''distance_from_start'') (JNumber (Num (of_nat (index * 100))))"
    using fuelStop_accepted by fastforce
  from Cons.prems have "stopsAccepted clock (Suc k) (Suc index) stops" by simp
  from Cons.IH[OF this] obtain fs where fs: "mapStops clock (Suc k) (Suc index) stops = Inr fs"
    "length fs = length stops"
    "\<forall>j<length stops. mile (fs ! j) =
            orElse (getProp (stops ! j) ''distance_from_start'')
              (JNumber (Num (of_nat ((Suc index + j) * 100))))" by blast
  have "\<forall>j<length (stop # stops). mile ((f # fs) ! j) =
            orElse (getProp ((stop # stops) ! j) ''distance_from_start'')
              (JNumber (Num (of_nat ((index + j) * 100))))"
  proof (intro allI impI)
    fix j assume "j < length (stop # stops)"
    then show "mile ((f # fs) ! j) =
            orElse (getProp ((stop # stops) ! j) ''distance_from_start'')
              (JNumber (Num (of_nat ((index + j) * 100))))"
      using f(2) fs(3) by (cases j) auto
  qed
  with f fs show ?case by simp
qed

lemma mapStops_returns:
  "mapStops clock k index stops = Inr fs \<Longrightarrow> stopsAccepted clock k index stops"
proof (induction stops arbitrary: k index fs)
  case Nil
  then show ?case by simp
next
  case (Cons stop stops)
  then show ?case
    by (auto simp: fuelStop_def toISOString_def validTime_def split: sum.splits if_splits)
qed

lemma parseNumeric_text: "textOrAbsent v \<longleftrightarrow> (\<exists>n. parseNumeric v = Inr n)"
  by (cases v) (simp_all add: textOrAbsent_def parseNumeric_def Let_def)

lemma fuelStops_accepted:
  assumes "stopListAccepted clock k v"
  shows "\<exists>fs. fuelStops clock k v = Inr fs \<and> length fs = length (backendStops v)
      \<and> (\<forall>j<length (backendStops v). mile (fs ! j) =
            orElse (getProp (backendStops v ! j) ''distance_from_start'')
              (JNumber (Num (of_nat (j * 100)))))"
proof (cases v)
  case (JArray stops)
  with assms have "stopsAccepted clock k 0 stops"
    by (simp add: stopListAccepted_def)
  from mapStops_accepted[OF this] JArray show ?thesis
    by (simp add: fuelStops_def backendStops_def)
qed (use assms in \<open>simp_all add: stopListAccepted_def fuelStops_def backendStops_def\<close>)

lemma fuelStops_returns:
  "fuelStops clock k v = Inr fs \<Longrightarrow> stopListAccepted clock k v"
  by (cases v) (auto simp: stopListAccepted_def fuelStops_def dest: mapStops_returns)

lemma transform_returns:
  assumes "transformTripPlanResponse clock bd = Inr r"
  shows "accepted clock bd"
proof -
  from assms obtain distance duration completion s1 s2 where
    n: "\<not> nullish bd" and
    d: "parseNumeric (getProp bd ''estimated_distance'') = Inr distance" and
    h: "parseNumeric (getProp bd ''estimated_duration'') = Inr duration" and
    c: "toISOString (hoursToMs duration (clock 1)) = Inr completion" and
    s1: "fuelStops clock 2 (getProp bd ''fuel_stops'') = Inr s1" and
    s2: "fuelStops clock (2 + length s1) (getProp bd ''fuel_stops'') = Inr s2"
    by (auto simp: transformTripPlanResponse_def split: if_splits sum.splits)
  from s1 have a1: "stopListAccepted clock 2 (getProp bd ''fuel_stops'')"
    by (rule fuelStops_returns)
  from fuelStops_accepted[OF a1] s1 have len: "length s1 = length (backendStops (getProp bd ''fuel_stops''))"
    by auto
  from s2 have a2: "stopListAccepted clock (2 + length s1) (getProp bd ''fuel_stops'')"
    by (rule fuelStops_returns)
  from c have "case duration of Num hours \<Rightarrow> validTime (of_int (clock 1) + hours * 3600000) | NaN \<Rightarrow> False"
    by (cases duration) (auto simp: toISOString_def hoursToMs_def validTime_def split: if_splits)
  with n d h a1 a2 len show ?thesis
    by (auto simp: accepted_def parseNumeric_text split: jsnum.splits)
qed

lemma transform_accepted:
  assumes "accepted clock bd"
  shows "\<exists>distance duration completion s1 s2.
     parseNumeric (getProp bd ''estimated_distance'') = Inr distance
   \<and> parseNumeric (getProp bd ''estimated_duration'') = Inr duration
   \<and> length s1 = length (backendStops (getProp bd ''fuel_stops''))
   \<and> length s2 = length (backendStops (getProp bd ''fuel_stops''))
   \<and> (\<forall>j<length (backendStops (getProp bd ''fuel_stops'')).
         mile (s1 ! j) =
           orElse (getProp (backendStops (getProp bd ''fuel_stops'') ! j) ''distance_from_start'')
             (JNumber (Num (of_nat (j * 100))))
       \<and> mile (s2 ! j) = mile (s1 ! j))
   \<and> transformTripPlanResponse clock bd =
       Inr \<lparr> TripPlanResponse.trip_id = orElse (getProp bd ''trip_id'') (JNumber (Num 1)),
             route = \<lparr>
               Route.current_location = orElse (getProp bd ''current_location'') (JString []),
               Route.pickup_location = orElse (getProp bd ''pickup_location'') (JString []),
               Route.dropoff_location = orElse (getProp bd ''dropoff_location'') (JString []),
               Route.total_distance = distance,
               Route.estimated_duration = duration \<rparr>,
             schedule = \<lparr>
               Schedule.trip_distance = distance,
               Schedule.total_driving_hours = duration,
               Schedule.start_time = clock 0,
               driving_periods = [],
               break_periods = [],
               rest_periods = [],
               Schedule.daily_logs = [],
               estimated_completion = completion,
               Schedule.fuel_stops = s1 \<rparr>,
             hos_compliance = \<lparr>
               HosCompliance.cycle_type = orElse (getProp bd ''cycle_type'') (JString ''70_8''),
               HosCompliance.max_cycle_hours =
                 (if getProp bd ''cycle_type'' = JString ''60_7'' then 60 else 70),
               HosCompliance.violations = [] \<rparr>,
             TripPlanResponse.fuel_stops = s2,
             rest_stops = [] \<rparr>"
proof -
  let ?stops = "backendStops (getProp bd ''fuel_stops'')"
  from assms obtain distance
    where d: "parseNumeric (getProp bd ''estimated_distance'') = Inr distance"
    by (auto simp: accepted_def parseNumeric_text)
  from assms obtain hours
    where h: "parseNumeric (getProp bd ''estimated_duration'') = Inr (Num hours)"
      and v: "validTime (of_int (clock 1) + hours * 3600000)"
    by (auto simp: accepted_def split: sum.splits jsnum.splits)
  from v obtain completion
    where c: "toISOString (hoursToMs (Num hours) (clock 1)) = Inr completion"
    by (auto simp: toISOString_def hoursToMs_def validTime_def)
  from assms have a1: "stopListAccepted clock 2 (getProp bd ''fuel_stops'')"
    by (simp add: accepted_def)
  from fuelStops_accepted[OF a1] obtain s1
    where s1: "fuelStops clock 2 (getProp bd ''fuel_stops'') = Inr s1"
      and l1: "length s1 = length ?stops"
      and m1: "\<forall>j<length ?stops. mile (s1 ! j) =
                 orElse (getProp (?stops ! j) ''distance_from_start'')
                   (JNumber (Num (of_nat (j * 100))))"
    by blast
  from assms l1 have a2: "stopListAccepted clock (2 + length s1) (getProp bd ''fuel_stops'')"
    by (simp add: accepted_def)
  from fuelStops_accepted[OF a2] obtain s2
    where s2: "fuelStops clock (2 + length s1) (getProp bd ''fuel_stops'') = Inr s2"
      and l2: "length s2 = length ?stops"
      and m2: "\<forall>j<length ?stops. mile (s2 ! j) =
                 orElse (getProp (?stops ! j) ''distance_from_start'')
                   (JNumber (Num (of_nat (j * 100))))"
    by blast
  from assms have n: "\<not> nullish bd"
    by (simp add: accepted_def)
  from m1 m2 have m: "\<forall>j<length ?stops.
         mile (s1 ! j) =
           orElse (getProp (?stops ! j) ''distance_from_start'') (JNumber (Num (of_nat (j * 100))))
       \<and> mile (s2 ! j) = mile (s1 ! j)"
    by simp
  have t: "transformTripPlanResponse clock bd =
       Inr \<lparr> TripPlanResponse.trip_id = orElse (getProp bd ''trip_id'') (JNumber (Num 1)),
             route = \<lparr>
               Route.current_location = orElse (getProp bd ''current_location'') (JString []),
               Route.pickup_location = orElse (getProp bd ''pickup_location'') (JString []),
               Route.dropoff_location = orElse (getProp bd ''dropoff_location'') (JString []),
               Route.total_distance = distance,
               Route.estimated_duration = Num hours \<rparr>,
             schedule = \<lparr>
               Schedule.trip_distance = distance,
               Schedule.total_driving_hours = Num hours,
               Schedule.start_time = clock 0,
               driving_periods = [],
               break_periods = [],
               rest_periods = [],
               Schedule.daily_logs = [],
               estimated_completion = completion,
               Schedule.fuel_stops = s1 \<rparr>,
             hos_compliance = \<lparr>
               HosCompliance.cycle_type = orElse (getProp bd ''cycle_type'') (JString ''70_8''),
               HosCompliance.max_cycle_hours =
                 (if getProp bd ''cycle_type'' = JString ''60_7'' then 60 else 70),
               HosCompliance.violations = [] \<rparr>,
             TripPlanResponse.fuel_stops = s2,
             rest_stops = [] \<rparr>"
    using n d h c s1 s2 by (simp add: transformTripPlanResponse_def)
  from d h l1 l2 m t show ?thesis
    by blast
qed

text \<open>So the accepted responses are exactly those on which the transformation returns.\<close>

lemma transform_returns_iff:
  "(\<exists>r. transformTripPlanResponse clock bd = Inr r) \<longleftrightarrow> accepted clock bd"
  using transform_returns transform_accepted by blast

lemmas evaluation =
  accepted_def textOrAbsent_def parseNumeric_def parseFloat_def isDigit_def digitsValue_def
  validTime_def stopListAccepted_def backendStops_def fixedClock_def toISOString_def
  hoursToMs_def fuelStops_def fuelStop_def orElse_def optProp_def showNat_def
  transformTripPlanResponse_def planTrip_def

section \<open>The claims\<close>

subsection \<open>C1: where the fuel stops come from\<close>

text \<open>
  C1, as stated (two stops, at mile 1000 and mile 2000, for every trip of 2500 miles; one
  stop each 1000 miles in general), fails: the transformation places no stop. A response
  of 2500 miles that lists no stop gets none, and stops listed without a distance get
  the miles 0 and 100.
\<close>

theorem fuel_stops_2500_counterexample:
  "(case transformTripPlanResponse (fixedClock 1700000000000)
           (JObject
              [(''estimated_distance'', JString ''2500 miles''),
               (''estimated_duration'', JString ''40 hours''),
               (''cycle_type'', JString ''70_8'')]) of
      Inl e \<Rightarrow> False
    | Inr r \<Rightarrow>
        Route.total_distance (route r) = Num 2500
      \<and> TripPlanResponse.fuel_stops r = []
      \<and> Schedule.fuel_stops (schedule r) = [])
   \<and> (case transformTripPlanResponse (fixedClock 1700000000000)
           (JObject
              [(''estimated_distance'', JString ''2500 miles''),
               (''estimated_duration'', JString ''40 hours''),
               (''fuel_stops'',
                  JArray [JObject [(''name'', JString ''A'')], JObject [(''name'', JString ''B'')]])]) of
      Inl e \<Rightarrow> False
    | Inr r \<Rightarrow>
        Route.total_distance (route r) = Num 2500
      \<and> map mile (TripPlanResponse.fuel_stops r) = [JNumber (Num 0), JNumber (Num 100)])"
  by (simp add: evaluation)

text \<open>
  C1, amended. The transformation plans no fuel stop itself: for every backend response
  it accepts, it returns one fuel stop for each entry of the response's \<^verbatim>\<open>fuel_stops\<close>
  list, in the same order, at the entry's \<^verbatim>\<open>distance_from_start\<close> (at \<open>index * 100\<close> when
  that is missing, zero or otherwise falsy), in \<^verbatim>\<open>fuel_stops\<close> and in \<^verbatim>\<open>schedule.fuel_stops\<close> alike, and none
  when the list is absent. A trip of 2500 miles has its stops at mile 1000 and mile 2000
  when the backend lists these two.
\<close>

theorem fuel_stops_relayed:
  assumes "accepted clock backendData"
  shows "\<exists>r. transformTripPlanResponse clock backendData = Inr r
     \<and> length (TripPlanResponse.fuel_stops r)
         = length (backendStops (getProp backendData ''fuel_stops''))
     \<and> length (Schedule.fuel_stops (schedule r))
         = length (backendStops (getProp backendData ''fuel_stops''))
     \<and> (\<forall>j<length (backendStops (getProp backendData ''fuel_stops'')).
           mile (TripPlanResponse.fuel_stops r ! j) =
             orElse (getProp (backendStops (getProp backendData ''fuel_stops'') ! j)
                       ''distance_from_start'')
               (JNumber (Num (of_nat (j * 100))))
         \<and> mile (Schedule.fuel_stops (schedule r) ! j) = mile (TripPlanResponse.fuel_stops r ! j))"
proof -
  from transform_accepted[OF assms] obtain distance duration completion s1 s2 where
    l1: "length s1 = length (backendStops (getProp backendData ''fuel_stops''))" and
    l2: "length s2 = length (backendStops (getProp backendData ''fuel_stops''))" and
    m: "\<forall>j<length (backendStops (getProp backendData ''fuel_stops'')).
         mile (s1 ! j) =
           orElse (getProp (backendStops (getProp backendData ''fuel_stops'') ! j)
                     ''distance_from_start'')
             (JNumber (Num (of_nat (j * 100))))
       \<and> mile (s2 ! j) = mile (s1 ! j)" and
    t: "transformTripPlanResponse clock backendData =
       Inr \<lparr> TripPlanResponse.trip_id = orElse (getProp backendData ''trip_id'') (JNumber (Num 1)),
             route = \<lparr>
               Route.current_location = orElse (getProp backendData ''current_location'') (JString []),
               Route.pickup_location = orElse (getProp backendData ''pickup_location'') (JString []),
               Route.dropoff_location = orElse (getProp backendData ''dropoff_location'') (JString []),
               Route.total_distance = distance,
               Route.estimated_duration = duration \<rparr>,
             schedule = \<lparr>
               Schedule.trip_distance = distance,
               Schedule.total_driving_hours = duration,
               Schedule.start_time = clock 0,
               driving_periods = [],
               break_periods = [],
               rest_periods = [],
               Schedule.daily_logs = [],
               estimated_completion = completion,
               Schedule.fuel_stops = s1 \<rparr>,
             hos_compliance = \<lparr>
               HosCompliance.cycle_type = orElse (getProp backendData ''cycle_type'') (JString ''70_8''),
               HosCompliance.max_cycle_hours =
                 (if getProp backendData ''cycle_type'' = JString ''60_7'' then 60 else 70),
               HosCompliance.violations = [] \<rparr>,
             TripPlanResponse.fuel_stops = s2,
             rest_stops = [] \<rparr>"
    by blast
  from l1 l2 m t show ?thesis
    by simp
qed

theorem fuel_stops_relayed_witness:
  "accepted (fixedClock 1700000000000)
     (JObject
        [(''estimated_distance'', JString ''2500 miles''),
         (''estimated_duration'', JString ''40 hours''),
         (''fuel_stops'',
            JArray
              [JObject [(''distance_from_start'', JNumber (Num 1000))],
               JObject [(''distance_from_start'', JNumber (Num 2000))]])])
   \<and> (\<exists>r. transformTripPlanResponse (fixedClock 1700000000000)
         (JObject
            [(''estimated_distance'', JString ''2500 miles''),
             (''estimated_duration'', JString ''40 hours''),
             (''fuel_stops'',
                JArray
                  [JObject [(''distance_from_start'', JNumber (Num 1000))],
                   JObject [(''distance_from_start'', JNumber (Num 2000))]])]) = Inr r
       \<and> length (TripPlanResponse.fuel_stops r) = 2
       \<and> mile (TripPlanResponse.fuel_stops r ! 0) = JNumber (Num 1000)
       \<and> mile (TripPlanResponse.fuel_stops r ! 1) = JNumber (Num 2000))"
proof -
  let ?c = "fixedClock 1700000000000"
  let ?bd = "JObject
        [(''estimated_distance'', JString ''2500 miles''),
         (''estimated_duration'', JString ''40 hours''),
         (''fuel_stops'',
            JArray
              [JObject [(''distance_from_start'', JNumber (Num 1000))],
               JObject [(''distance_from_start'', JNumber (Num 2000))]])]"
  have a: "accepted ?c ?bd"
    by (simp add: evaluation)
  have s: "backendStops (getProp ?bd ''fuel_stops'') =
             [JObject [(''distance_from_start'', JNumber (Num 1000))],
              JObject [(''distance_from_start'', JNumber (Num 2000))]]"
    by (simp add: backendStops_def)
  from fuel_stops_relayed[OF a] obtain r where
    r: "transformTripPlanResponse ?c ?bd = Inr r" and
    l: "length (TripPlanResponse.fuel_stops r) = length (backendStops (getProp ?bd ''fuel_stops''))" and
    m: "\<forall>j<length (backendStops (getProp ?bd ''fuel_stops'')).
           mile (TripPlanResponse.fuel_stops r ! j) =
             orElse (getProp (backendStops (getProp ?bd ''fuel_stops'') ! j) ''distance_from_start'')
               (JNumber (Num (of_nat (j * 100))))
         \<and> mile (Schedule.fuel_stops (schedule r) ! j) = mile (TripPlanResponse.fuel_stops r ! j)"
    by blast
  from l have l2: "length (TripPlanResponse.fuel_stops r) = 2"
    by (simp only: s) simp
  from m have "mile (TripPlanResponse.fuel_stops r ! 0) =
      orElse (getProp (backendStops (getProp ?bd ''fuel_stops'') ! 0) ''distance_from_start'')
        (JNumber (Num (of_nat (0 * 100))))"
    by (simp only: s) simp
  then have m0: "mile (TripPlanResponse.fuel_stops r ! 0) = JNumber (Num 1000)"
    by (simp only: s) (simp add: orElse_def)
  from m have "mile (TripPlanResponse.fuel_stops r ! 1) =
      orElse (getProp (backendStops (getProp ?bd ''fuel_stops'') ! 1) ''distance_from_start'')
        (JNumber (Num (of_nat (1 * 100))))"
    by (simp only: s) simp
  then have m1: "mile (TripPlanResponse.fuel_stops r ! 1) = JNumber (Num 2000)"
    by (simp only: s) (simp add: orElse_def)
  from a r l2 m0 m1 show ?thesis
    by blast
qed

subsection \<open>C2: the trip of 500 miles\<close>

text \<open>
  C2, as stated (exactly one DailyLog for 500 miles, 9 driving hours, cycle \<^verbatim>\<open>70_8\<close>), fails:
  the schedule of the transformation has no DailyLog.
\<close>

theorem trip_500_counterexample:
  "(case transformTripPlanResponse (fixedClock 1700000000000)
           (JObject
              [(''estimated_distance'', JString ''500 miles''),
               (''estimated_duration'', JString ''9 hours''),
               (''cycle_type'', JString ''70_8'')]) of
      Inl e \<Rightarrow> False
    | Inr r \<Rightarrow>
        Schedule.trip_distance (schedule r) = Num 500
      \<and> Schedule.daily_logs (schedule r) = []
      \<and> length (Schedule.daily_logs (schedule r)) \<noteq> 1)"
  by (simp add: evaluation)

text \<open>
  C2, amended. For a response of 500 miles and 9 driving hours with cycle type
  \<^verbatim>\<open>70_8\<close> that lists no fuel stop, the schedule produced contains no DailyLog
  (\<^verbatim>\<open>daily_logs\<close> is empty); its \<^verbatim>\<open>total_driving_hours\<close> is 9 (540 minutes), the
  violations list is empty, the ceiling is 70 hours and there are zero fuel stops.
\<close>

theorem trip_500_schedule:
  assumes "\<not> nullish backendData"
    and "parseNumeric (getProp backendData ''estimated_distance'') = Inr (Num 500)"
    and "parseNumeric (getProp backendData ''estimated_duration'') = Inr (Num 9)"
    and "getProp backendData ''cycle_type'' = JString ''70_8''"
    and "nullish (getProp backendData ''fuel_stops'')"
    and "validTime (of_int (clock 1) + 9 * 3600000)"
  shows "\<exists>r. transformTripPlanResponse clock backendData = Inr r
     \<and> Schedule.daily_logs (schedule r) = []
     \<and> Schedule.trip_distance (schedule r) = Num 500
     \<and> Schedule.total_driving_hours (schedule r) = Num 9
     \<and> HosCompliance.violations (hos_compliance r) = []
     \<and> HosCompliance.max_cycle_hours (hos_compliance r) = 70
     \<and> Schedule.fuel_stops (schedule r) = []
     \<and> TripPlanResponse.fuel_stops r = []"
proof -
  from assms(5) have f: "fuelStops clock k (getProp backendData ''fuel_stops'') = Inr []" for k
    by (cases "getProp backendData ''fuel_stops''") (simp_all add: fuelStops_def)
  from assms(6) obtain completion
    where c: "toISOString (hoursToMs (Num 9) (clock 1)) = Inr completion"
    by (auto simp: toISOString_def hoursToMs_def validTime_def)
  show ?thesis
    using assms(1-4) f c by (simp add: transformTripPlanResponse_def)
qed

theorem trip_500_schedule_witness:
  "\<exists>r. transformTripPlanResponse (fixedClock 1700000000000)
         (JObject
            [(''estimated_distance'', JString ''500 miles''),
             (''estimated_duration'', JString ''9 hours''),
             (''cycle_type'', JString ''70_8'')]) = Inr r
     \<and> Schedule.daily_logs (schedule r) = []
     \<and> Schedule.total_driving_hours (schedule r) = Num 9
     \<and> HosCompliance.violations (hos_compliance r) = []
     \<and> TripPlanResponse.fuel_stops r = []"
proof -
  let ?c = "fixedClock 1700000000000"
  let ?bd = "JObject
            [(''estimated_distance'', JString ''500 miles''),
             (''estimated_duration'', JString ''9 hours''),
             (''cycle_type'', JString ''70_8'')]"
  have h1: "\<not> nullish ?bd" by simp
  have h2: "parseNumeric (getProp ?bd ''estimated_distance'') = Inr (Num 500)"
    by (simp add: evaluation)
  have h3: "parseNumeric (getProp ?bd ''estimated_duration'') = Inr (Num 9)"
    by (simp add: evaluation)
  have h4: "getProp ?bd ''cycle_type'' = JString ''70_8''" by simp
  have h5: "nullish (getProp ?bd ''fuel_stops'')" by simp
  have h6: "validTime (of_int (?c 1) + 9 * 3600000)"
    by (simp add: evaluation)
  from trip_500_schedule[where clock = ?c and backendData = ?bd, OF h1 h2 h3 h4 h5 h6]
  show ?thesis
    by blast
qed

subsection \<open>C3: non-compliance and exceptions\<close>

text \<open>
  C3, as stated (non-compliance is represented as Violation records attached to the
  output), fails: for 100 driving hours under the 60-hour cycle the output is a schedule
  of 100 driving hours that completes 100 hours after its start, with no break and no
  rest, beside a ceiling of 60 hours, and no violation is attached.
\<close>

theorem violations_counterexample:
  "(case transformTripPlanResponse (fixedClock 1700000000000)
           (JObject
              [(''estimated_distance'', JString ''100 miles''),
               (''estimated_duration'', JString ''100 hours''),
               (''cycle_type'', JString ''60_7'')]) of
      Inl e \<Rightarrow> False
    | Inr r \<Rightarrow>
        Schedule.total_driving_hours (schedule r) = Num 100
      \<and> estimated_completion (schedule r) - Schedule.start_time (schedule r) = 100 * 3600000
      \<and> break_periods (schedule r) = []
      \<and> rest_periods (schedule r) = []
      \<and> HosCompliance.max_cycle_hours (hos_compliance r) = 60
      \<and> HosCompliance.violations (hos_compliance r) = [])"
  by (simp add: evaluation)

text \<open>
  C3, amended. For every backend response the transformation accepts, whatever distance
  and duration it states, \<^verbatim>\<open>planTrip\<close> throws nothing and returns the schedule of the
  transformation, with the distance and the duration as parsed; non-compliance is
  neither thrown nor recorded, the \<^verbatim>\<open>violations\<close> list of the output being empty.
\<close>

theorem planTrip_returns_schedule:
  assumes "accepted clock backendData"
  shows "\<exists>r. planTrip clock request (Fulfilled backendData) = ([PostTripPlan request], Inr r)
     \<and> transformTripPlanResponse clock backendData = Inr r
     \<and> parseNumeric (getProp backendData ''estimated_distance'')
         = Inr (Schedule.trip_distance (schedule r))
     \<and> parseNumeric (getProp backendData ''estimated_duration'')
         = Inr (Schedule.total_driving_hours (schedule r))
     \<and> HosCompliance.violations (hos_compliance r) = []"
proof -
  from transform_accepted[OF assms] obtain r where
    "transformTripPlanResponse clock backendData = Inr r"
    "parseNumeric (getProp backendData ''estimated_distance'')
       = Inr (Schedule.trip_distance (schedule r))"
    "parseNumeric (getProp backendData ''estimated_duration'')
       = Inr (Schedule.total_driving_hours (schedule r))"
    "HosCompliance.violations (hos_compliance r) = []"
    by fastforce
  then show ?thesis
    by (simp add: planTrip_def)
qed

theorem planTrip_returns_schedule_witness:
  "accepted (fixedClock 1700000000000)
     (JObject
        [(''estimated_distance'', JString ''100 miles''),
         (''estimated_duration'', JString ''100 hours''),
         (''cycle_type'', JString ''60_7'')])
   \<and> (\<exists>r. snd (planTrip (fixedClock 1700000000000)
                  \<lparr> TripPlanRequest.current_location = ''Rwanda'',
                    TripPlanRequest.pickup_location = ''Karongi'',
                    TripPlanRequest.dropoff_location = ''Kigali'',
                    TripPlanRequest.cycle_type = Cycle_60_7,
                    current_lat = None, current_lng = None,
                    pickup_lat = None, pickup_lng = None,
                    dropoff_lat = None, dropoff_lng = None \<rparr>
                  (Fulfilled
                     (JObject
                        [(''estimated_distance'', JString ''100 miles''),
                         (''estimated_duration'', JString ''100 hours''),
                         (''cycle_type'', JString ''60_7'')]))) = Inr r
       \<and> Schedule.total_driving_hours (schedule r) = Num 100
       \<and> HosCompliance.violations (hos_compliance r) = [])"
proof -
  let ?c = "fixedClock 1700000000000"
  let ?bd = "JObject
        [(''estimated_distance'', JString ''100 miles''),
         (''estimated_duration'', JString ''100 hours''),
         (''cycle_type'', JString ''60_7'')]"
  let ?req = "\<lparr> TripPlanRequest.current_location = ''Rwanda'',
                    TripPlanRequest.pickup_location = ''Karongi'',
                    TripPlanRequest.dropoff_location = ''Kigali'',
                    TripPlanRequest.cycle_type = Cycle_60_7,
                    current_lat = None, current_lng = None,
                    pickup_lat = None, pickup_lng = None,
                    dropoff_lat = None, dropoff_lng = None \<rparr>"
  have a: "accepted ?c ?bd"
    by (simp add: evaluation)
  have h: "parseNumeric (getProp ?bd ''estimated_duration'') = Inr (Num 100)"
    by (simp add: evaluation)
  from planTrip_returns_schedule[where clock = ?c and backendData = ?bd and request = ?req, OF a]
  obtain r where
    p: "planTrip ?c ?req (Fulfilled ?bd) = ([PostTripPlan ?req], Inr r)" and
    d: "parseNumeric (getProp ?bd ''estimated_duration'')
          = Inr (Schedule.total_driving_hours (schedule r))" and
    v: "HosCompliance.violations (hos_compliance r) = []"
    by blast
  from d h have "Schedule.total_driving_hours (schedule r) = Num 100"
    by simp
  with a p v show ?thesis
    by simp
qed

subsection \<open>C4: rejected trips\<close>

text \<open>
  C4, as stated (a negative distance or duration, or an unrecognised cycle type, is
  rejected before any schedule is generated), fails: on an answer that states minus 500
  miles, minus 9 hours and the cycle type \<^verbatim>\<open>80_9\<close>, \<^verbatim>\<open>planTrip\<close> returns a schedule of 500
  miles and 9 hours for that cycle type, under a 70-hour ceiling.
\<close>

theorem rejection_counterexample:
  "(case planTrip (fixedClock 1700000000000)
           \<lparr> TripPlanRequest.current_location = ''Rwanda'',
             TripPlanRequest.pickup_location = ''Karongi'',
             TripPlanRequest.dropoff_location = ''Kigali'',
             TripPlanRequest.cycle_type = Cycle_70_8,
             current_lat = None, current_lng = None,
             pickup_lat = None, pickup_lng = None,
             dropoff_lat = None, dropoff_lng = None \<rparr>
           (Fulfilled
              (JObject
                 [(''estimated_distance'', JString ''-500 miles''),
                  (''estimated_duration'', JString ''-9 hours''),
                  (''cycle_type'', JString ''80_9'')])) of
      (sent, Inl e) \<Rightarrow> False
    | (sent, Inr r) \<Rightarrow>
        length sent = 1
      \<and> Route.total_distance (route r) = Num 500
      \<and> Route.estimated_duration (route r) = Num 9
      \<and> HosCompliance.cycle_type (hos_compliance r) = JString ''80_9''
      \<and> HosCompliance.max_cycle_hours (hos_compliance r) = 70)"
  by (simp add: evaluation)

text \<open>
  C4, amended. The front end validates neither distance, duration nor cycle type. A
  plan request states no distance or duration, and its cycle type is one of the two by
  its type; \<^verbatim>\<open>planTrip\<close> sends every request. Of the response, the transformation drops a
  minus sign with the other non-numeric characters and passes the cycle type through,
  with a ceiling of 70 hours unless it is \<^verbatim>\<open>60_7\<close>. A rejection is the backend's: when the
  request is answered with status 400, \<^verbatim>\<open>planTrip\<close> has sent that one request and no
  other, runs no transformation, and throws an Error made from the \<^verbatim>\<open>error\<close> text of the
  response, verbatim, or from \<^verbatim>\<open>Invalid trip data provided\<close> when the response has none.
\<close>

theorem planTrip_rejection:
  "planTrip clock request (Rejected (Some (400, responseData))) =
     ([PostTripPlan request],
      Inl (NewError (orElse (optProp responseData ''error'')
                       (JString ''Invalid trip data provided''))))
   \<and> (optProp responseData ''error'' = JString message \<and> message \<noteq> [] \<longrightarrow>
        snd (planTrip clock request (Rejected (Some (400, responseData))))
          = Inl (NewError (JString message)))
   \<and> (\<not> truthy (optProp responseData ''error'') \<longrightarrow>
        snd (planTrip clock request (Rejected (Some (400, responseData))))
          = Inl (NewError (JString ''Invalid trip data provided'')))
   \<and> fst (planTrip clock request answer) = [PostTripPlan request]
   \<and> (accepted clock backendData \<longrightarrow>
        (\<exists>r. snd (planTrip clock request (Fulfilled backendData)) = Inr r
           \<and> HosCompliance.cycle_type (hos_compliance r)
               = orElse (getProp backendData ''cycle_type'') (JString ''70_8'')
           \<and> HosCompliance.max_cycle_hours (hos_compliance r)
               = (if getProp backendData ''cycle_type'' = JString ''60_7'' then 60 else 70)))
   \<and> parseNumeric (JString (CHR ''-'' # numberText)) = parseNumeric (JString numberText)"
proof (intro conjI impI)
  show "planTrip clock request (Rejected (Some (400, responseData))) =
     ([PostTripPlan request],
      Inl (NewError (orElse (optProp responseData ''error'')
                       (JString ''Invalid trip data provided''))))"
    by (simp add: planTrip_def)
next
  assume "optProp responseData ''error'' = JString message \<and> message \<noteq> []"
  then show "snd (planTrip clock request (Rejected (Some (400, responseData))))
          = Inl (NewError (JString message))"
    by (simp add: planTrip_def orElse_def)
next
  assume "\<not> truthy (optProp responseData ''error'')"
  then show "snd (planTrip clock request (Rejected (Some (400, responseData))))
          = Inl (NewError (JString ''Invalid trip data provided''))"
    by (simp add: planTrip_def orElse_def)
next
  show "fst (planTrip clock request answer) = [PostTripPlan request]"
    by (simp add: planTrip_def)
next
  assume "accepted clock backendData"
  from transform_accepted[OF this] obtain r where
    "transformTripPlanResponse clock backendData = Inr r"
    "HosCompliance.cycle_type (hos_compliance r)
       = orElse (getProp backendData ''cycle_type'') (JString ''70_8'')"
    "HosCompliance.max_cycle_hours (hos_compliance r)
       = (if getProp backendData ''cycle_type'' = JString ''60_7'' then 60 else 70)"
    by fastforce
  then show "\<exists>r. snd (planTrip clock request (Fulfilled backendData)) = Inr r
           \<and> HosCompliance.cycle_type (hos_compliance r)
               = orElse (getProp backendData ''cycle_type'') (JString ''70_8'')
           \<and> HosCompliance.max_cycle_hours (hos_compliance r)
               = (if getProp backendData ''cycle_type'' = JString ''60_7'' then 60 else 70)"
    by (simp add: planTrip_def)
next
  show "parseNumeric (JString (CHR ''-'' # numberText)) = parseNumeric (JString numberText)"
    by (simp add: parseNumeric_def isDigit_def)
qed

theorem planTrip_rejection_witness:
  "snd (planTrip (fixedClock 1700000000000)
          \<lparr> TripPlanRequest.current_location = ''Rwanda'',
            TripPlanRequest.pickup_location = ''Karongi'',
            TripPlanRequest.dropoff_location = ''Kigali'',
            TripPlanRequest.cycle_type = Cycle_70_8,
            current_lat = None, current_lng = None,
            pickup_lat = None, pickup_lng = None,
            dropoff_lat = None, dropoff_lng = None \<rparr>
          (Rejected (Some (400, JObject [(''error'', JString ''Invalid cycle type'')]))))
     = Inl (NewError (JString ''Invalid cycle type''))
   \<and> snd (planTrip (fixedClock 1700000000000)
          \<lparr> TripPlanRequest.current_location = ''Rwanda'',
            TripPlanRequest.pickup_location = ''Karongi'',
            TripPlanRequest.dropoff_location = ''Kigali'',
            TripPlanRequest.cycle_type = Cycle_70_8,
            current_lat = None, current_lng = None,
            pickup_lat = None, pickup_lng = None,
            dropoff_lat = None, dropoff_lng = None \<rparr>
          (Rejected (Some (400, JString ''Bad Request''))))
     = Inl (NewError (JString ''Invalid trip data provided''))
   \<and> (\<exists>r. snd (planTrip (fixedClock 1700000000000)
          \<lparr> TripPlanRequest.current_location = ''Rwanda'',
            TripPlanRequest.pickup_location = ''Karongi'',
            TripPlanRequest.dropoff_location = ''Kigali'',
            TripPlanRequest.cycle_type = Cycle_70_8,
            current_lat = None, current_lng = None,
            pickup_lat = None, pickup_lng = None,
            dropoff_lat = None, dropoff_lng = None \<rparr>
          (Fulfilled (JObject [(''cycle_type'', JString ''80_9'')]))) = Inr r
        \<and> HosCompliance.cycle_type (hos_compliance r) = JString ''80_9'')"
proof -
  let ?c = "fixedClock 1700000000000"
  let ?req = "\<lparr> TripPlanRequest.current_location = ''Rwanda'',
            TripPlanRequest.pickup_location = ''Karongi'',
            TripPlanRequest.dropoff_location = ''Kigali'',
            TripPlanRequest.cycle_type = Cycle_70_8,
            current_lat = None, current_lng = None,
            pickup_lat = None, pickup_lng = None,
            dropoff_lat = None, dropoff_lng = None \<rparr>"
  let ?bd = "JObject [(''cycle_type'', JString ''80_9'')]"
  have e: "optProp (JObject [(''error'', JString ''Invalid cycle type'')]) ''error''
             = JString ''Invalid cycle type'' \<and> ''Invalid cycle type'' \<noteq> []"
    by (simp add: optProp_def)
  have n: "\<not> truthy (optProp (JString ''Bad Request'') ''error'')"
    by (simp add: optProp_def)
  have a: "accepted ?c ?bd"
    by (simp add: evaluation)
  have o: "orElse (getProp ?bd ''cycle_type'') (JString ''70_8'') = JString ''80_9''"
    by (simp add: orElse_def)
  from planTrip_rejection[where clock = ?c and request = ?req
      and responseData = "JObject [(''error'', JString ''Invalid cycle type'')]"
      and message = "''Invalid cycle type''"] e
  have 1: "snd (planTrip ?c ?req
      (Rejected (Some (400, JObject [(''error'', JString ''Invalid cycle type'')]))))
     = Inl (NewError (JString ''Invalid cycle type''))"
    by blast
  from planTrip_rejection[where clock = ?c and request = ?req
      and responseData = "JString ''Bad Request''"] n
  have 2: "snd (planTrip ?c ?req (Rejected (Some (400, JString ''Bad Request''))))
     = Inl (NewError (JString ''Invalid trip data provided''))"
    by blast
  from planTrip_rejection[where clock = ?c and request = ?req and backendData = ?bd] a
  have 3: "\<exists>r. snd (planTrip ?c ?req (Fulfilled ?bd)) = Inr r
        \<and> HosCompliance.cycle_type (hos_compliance r)
            = orElse (getProp ?bd ''cycle_type'') (JString ''70_8'')"
    by blast
  from 3 have "\<exists>r. snd (planTrip ?c ?req (Fulfilled ?bd)) = Inr r
        \<and> HosCompliance.cycle_type (hos_compliance r) = JString ''80_9''"
    by (simp only: o)
  with 1 2 show ?thesis
    by blast
qed

subsection \<open>C5: the cycle ceiling and the restart\<close>

text \<open>
  C5. The on-duty ceiling is 70 hours for the 8-day cycle and 60 hours for the 7-day
  cycle: so the transformation reports it for the cycle types \<^verbatim>\<open>70_8\<close> and \<^verbatim>\<open>60_7\<close>, and
  so the duty clock has it. In the duty clock, once a state (at the ceiling or not) has
  seen an off-duty or sleeper block of at least 34 consecutive hours, the hours used are
  zero and the whole ceiling is available, and the next \<^verbatim>\<open>advance\<close> counts from zero.
\<close>

theorem cycle_ceiling_and_restart:
  "(transformTripPlanResponse clock backendData = Inr r \<longrightarrow>
      (HosCompliance.cycle_type (hos_compliance r) = JString ''70_8'' \<longrightarrow>
         HosCompliance.max_cycle_hours (hos_compliance r) = 70)
    \<and> (HosCompliance.cycle_type (hos_compliance r) = JString ''60_7'' \<longrightarrow>
         HosCompliance.max_cycle_hours (hos_compliance r) = 60))
   \<and> cycleCeiling Cycle_70_8 = 70
   \<and> cycleCeiling Cycle_60_7 = 60
   \<and> ((s = off_duty \<or> s = sleeper_berth) \<and> 34 \<le> resting c + duration \<longrightarrow>
        hours_used (advance s duration c) = 0
      \<and> hours_available (advance s duration c) = cycleCeiling (cycle c)
      \<and> hours_used (advance nextStatus nextDuration (advance s duration c)) =
          (if nextStatus = off_duty \<or> nextStatus = sleeper_berth then 0 else nextDuration))"
proof (intro conjI impI)
  assume r: "transformTripPlanResponse clock backendData = Inr r"
  from transform_accepted[OF transform_returns[OF r]] r
  have c: "HosCompliance.cycle_type (hos_compliance r)
             = orElse (getProp backendData ''cycle_type'') (JString ''70_8'')"
    and m: "HosCompliance.max_cycle_hours (hos_compliance r)
             = (if getProp backendData ''cycle_type'' = JString ''60_7'' then 60 else 70)"
    by auto
  {
    assume "HosCompliance.cycle_type (hos_compliance r) = JString ''70_8''"
    with c m show "HosCompliance.max_cycle_hours (hos_compliance r) = 70"
      by (auto simp: orElse_def split: if_splits)
  }
  {
    assume "HosCompliance.cycle_type (hos_compliance r) = JString ''60_7''"
    with c m show "HosCompliance.max_cycle_hours (hos_compliance r) = 60"
      by (auto simp: orElse_def split: if_splits)
  }
next
  show "cycleCeiling Cycle_70_8 = 70" "cycleCeiling Cycle_60_7 = 60"
    by simp_all
next
  assume b: "(s = off_duty \<or> s = sleeper_berth) \<and> 34 \<le> resting c + duration"
  then show u: "hours_used (advance s duration c) = 0"
    by (auto simp: advance_def Let_def)
  from b show "hours_available (advance s duration c) = cycleCeiling (cycle c)"
    by (auto simp: advance_def Let_def hours_available_def)
  from b have "0 \<le> resting (advance s duration c)"
    by (auto simp: advance_def Let_def)
  with u show "hours_used (advance nextStatus nextDuration (advance s duration c)) =
          (if nextStatus = off_duty \<or> nextStatus = sleeper_berth then 0 else nextDuration)"
    by (auto simp: advance_def Let_def)
qed

theorem cycle_ceiling_and_restart_witness:
  "(\<exists>r. transformTripPlanResponse (fixedClock 1700000000000)
          (JObject [(''cycle_type'', JString ''60_7'')]) = Inr r
       \<and> HosCompliance.max_cycle_hours (hos_compliance r) = 60)
   \<and> (\<exists>r. transformTripPlanResponse (fixedClock 1700000000000)
          (JObject [(''cycle_type'', JString ''70_8'')]) = Inr r
       \<and> HosCompliance.max_cycle_hours (hos_compliance r) = 70)
   \<and> hours_used (advance off_duty 34 \<lparr> cycle = Cycle_70_8, hours_used = 70, resting = 0 \<rparr>) = 0
   \<and> hours_used (advance driving 2
        (advance sleeper_berth 24
           (advance off_duty 10 \<lparr> cycle = Cycle_70_8, hours_used = 70, resting = 0 \<rparr>))) = 2"
proof -
  let ?c = "fixedClock 1700000000000"
  let ?st = "\<lparr> cycle = Cycle_70_8, hours_used = 70, resting = 0 \<rparr>"
  have a6: "accepted ?c (JObject [(''cycle_type'', JString ''60_7'')])"
    by (simp add: evaluation)
  from transform_accepted[OF a6] obtain r6 where
    r6: "transformTripPlanResponse ?c (JObject [(''cycle_type'', JString ''60_7'')]) = Inr r6"
      "HosCompliance.cycle_type (hos_compliance r6) = JString ''60_7''"
    by (fastforce simp: orElse_def)
  with cycle_ceiling_and_restart[where clock = ?c and r = r6
      and backendData = "JObject [(''cycle_type'', JString ''60_7'')]"]
  have 1: "HosCompliance.max_cycle_hours (hos_compliance r6) = 60"
    by blast
  have a7: "accepted ?c (JObject [(''cycle_type'', JString ''70_8'')])"
    by (simp add: evaluation)
  from transform_accepted[OF a7] obtain r7 where
    r7: "transformTripPlanResponse ?c (JObject [(''cycle_type'', JString ''70_8'')]) = Inr r7"
      "HosCompliance.cycle_type (hos_compliance r7) = JString ''70_8''"
    by (fastforce simp: orElse_def)
  with cycle_ceiling_and_restart[where clock = ?c and r = r7
      and backendData = "JObject [(''cycle_type'', JString ''70_8'')]"]
  have 2: "HosCompliance.max_cycle_hours (hos_compliance r7) = 70"
    by blast
  have "(off_duty = off_duty \<or> off_duty = sleeper_berth) \<and> 34 \<le> resting ?st + 34"
    by simp
  with cycle_ceiling_and_restart[where s = off_duty and c = ?st and duration = 34]
  have 3: "hours_used (advance off_duty 34 ?st) = 0"
    by blast
  have "(sleeper_berth = off_duty \<or> sleeper_berth = sleeper_berth)
      \<and> 34 \<le> resting (advance off_duty 10 ?st) + 24"
    by (simp add: advance_def)
  with cycle_ceiling_and_restart[where s = sleeper_berth and c = "advance off_duty 10 ?st"
      and duration = 24 and nextStatus = driving and nextDuration = 2]
  have 4: "hours_used (advance driving 2 (advance sleeper_berth 24 (advance off_duty 10 ?st))) = 2"
    by simp
  from r6(1) 1 r7(1) 2 3 4 show ?thesis
    by blast
qed

subsection \<open>C6: the totals of the daily logs\<close>

text \<open>
  C6, as stated (the durations of all entries of all daily logs add up to the duty time
  of the trip), fails on the logs the front end makes up when the request for them fails:
  they hold no entry, so the durations add up to 0, beside 10 on-duty hours reported.
\<close>

theorem log_durations_counterexample:
  "entryMinutes (TripLogsResponse.daily_logs
       (snd (getTripLogs (JNumber (Num 1)) (Rejected None)))) = 0
   \<and> total_on_duty_hours (hos_summary
       (snd (getTripLogs (JNumber (Num 1)) (Rejected None)))) * 60 = 600
   \<and> of_int (entryMinutes (TripLogsResponse.daily_logs
       (snd (getTripLogs (JNumber (Num 1)) (Rejected None)))))
     \<noteq> total_on_duty_hours (hos_summary
       (snd (getTripLogs (JNumber (Num 1)) (Rejected None)))) * 60"
  by (simp add: getTripLogs_def entryMinutes_def)

text \<open>
  C6, amended. The front end produces no DailyLog of its own: \<^verbatim>\<open>daily_logs\<close> is empty in
  the schedule of the transformation and in the fallback of \<^verbatim>\<open>getTripLogs\<close>. So there is
  no DailyLog whose four totals could miss 1440 minutes, and the durations of the entries
  add up to 0, whatever duty time is reported beside them (10 on-duty hours in the
  fallback). Logs received from the backend are returned as they came.
\<close>

theorem daily_logs_produced:
  "TripLogsResponse.daily_logs (snd (getTripLogs tripId (Rejected err))) = []
   \<and> entryMinutes (TripLogsResponse.daily_logs (snd (getTripLogs tripId (Rejected err)))) = 0
   \<and> total_on_duty_hours (hos_summary (snd (getTripLogs tripId (Rejected err)))) = 10
   \<and> (transformTripPlanResponse clock backendData = Inr r \<longrightarrow>
        Schedule.daily_logs (schedule r) = [])
   \<and> getTripLogs tripId (Fulfilled logs) = ([GetTripLogs tripId], logs)"
proof (intro conjI impI)
  assume r: "transformTripPlanResponse clock backendData = Inr r"
  from transform_accepted[OF transform_returns[OF r]] r
  show "Schedule.daily_logs (schedule r) = []"
    by auto
qed (simp_all add: getTripLogs_def entryMinutes_def)

theorem daily_logs_produced_witness:
  "TripLogsResponse.daily_logs (snd (getTripLogs (JString ''trip_52330'') (Rejected None))) = []
   \<and> entryMinutes (TripLogsResponse.daily_logs
        (snd (getTripLogs (JString ''trip_52330'') (Rejected None)))) = 0
   \<and> (\<exists>r. transformTripPlanResponse (fixedClock 1700000000000)
          (JObject [(''estimated_duration'', JString ''9 hours'')]) = Inr r
        \<and> Schedule.total_driving_hours (schedule r) = Num 9
        \<and> Schedule.daily_logs (schedule r) = [])"
proof -
  let ?c = "fixedClock 1700000000000"
  let ?bd = "JObject [(''estimated_duration'', JString ''9 hours'')]"
  have a: "accepted ?c ?bd"
    by (simp add: evaluation)
  have h: "parseNumeric (getProp ?bd ''estimated_duration'') = Inr (Num 9)"
    by (simp add: evaluation)
  from transform_accepted[OF a] h obtain r where
    r: "transformTripPlanResponse ?c ?bd = Inr r"
      "Schedule.total_driving_hours (schedule r) = Num 9"
    by fastforce
  from daily_logs_produced[where tripId = "JString ''trip_52330''" and err = None
      and clock = ?c and backendData = ?bd and r = r] r
  show ?thesis
    by blast
qed

subsection \<open>C7: rendering is a function of the grid\<close>




subsection \<open>C8: termination\<close>

text \<open>
  C8, as stated (a zero-distance trip ends with a single, mostly off-duty day), fails: a
  trip of zero miles gets a schedule with no DailyLog.
\<close>

theorem zero_distance_counterexample:
  "(case transformTripPlanResponse (fixedClock 1700000000000)
           (JObject
              [(''estimated_distance'', JString ''0 miles''),
               (''estimated_duration'', JString ''0 hours''),
               (''cycle_type'', JString ''70_8'')]) of
      Inl e \<Rightarrow> False
    | Inr r \<Rightarrow>
        Schedule.trip_distance (schedule r) = Num 0
      \<and> Schedule.daily_logs (schedule r) = []
      \<and> length (Schedule.daily_logs (schedule r)) \<noteq> 1)"
  by (simp add: evaluation)

text \<open>
  C8, amended. The transformation has no scheduling loop. On every backend response it
  accepts it ends with a result after two passes over the response's \<^verbatim>\<open>fuel_stops\<close> list,
  each pass making one stop for each entry listed (a number the days of the trip do
  not bound), and the schedule has no DailyLog; a trip of zero distance ends the same
  way, with no DailyLog rather than a single day.
\<close>

theorem transformation_terminates:
  assumes "accepted clock backendData"
  shows "\<exists>r. transformTripPlanResponse clock backendData = Inr r
     \<and> length (Schedule.fuel_stops (schedule r))
         = length (backendStops (getProp backendData ''fuel_stops''))
     \<and> length (TripPlanResponse.fuel_stops r)
         = length (backendStops (getProp backendData ''fuel_stops''))
     \<and> Schedule.daily_logs (schedule r) = []
     \<and> (parseNumeric (getProp backendData ''estimated_distance'') = Inr (Num 0) \<longrightarrow>
          Schedule.trip_distance (schedule r) = Num 0)"
proof -
  from transform_accepted[OF assms] show ?thesis
    by fastforce
qed

theorem transformation_terminates_witness:
  "accepted (fixedClock 1700000000000)
     (JObject
        [(''estimated_distance'', JString ''0 miles''),
         (''estimated_duration'', JString ''0 hours''),
         (''fuel_stops'', JArray [JObject [], JObject [], JObject []])])
   \<and> (\<exists>r. transformTripPlanResponse (fixedClock 1700000000000)
         (JObject
            [(''estimated_distance'', JString ''0 miles''),
             (''estimated_duration'', JString ''0 hours''),
             (''fuel_stops'', JArray [JObject [], JObject [], JObject []])]) = Inr r
       \<and> length (Schedule.fuel_stops (schedule r)) = 3
       \<and> length (TripPlanResponse.fuel_stops r) = 3
       \<and> Schedule.daily_logs (schedule r) = []
       \<and> Schedule.trip_distance (schedule r) = Num 0)"
proof -
  let ?c = "fixedClock 1700000000000"
  let ?bd = "JObject
        [(''estimated_distance'', JString ''0 miles''),
         (''estimated_duration'', JString ''0 hours''),
         (''fuel_stops'', JArray [JObject [], JObject [], JObject []])]"
  have a: "accepted ?c ?bd"
    by (simp add: evaluation)
  have s: "length (backendStops (getProp ?bd ''fuel_stops'')) = 3"
    by (simp add: backendStops_def)
  have z: "parseNumeric (getProp ?bd ''estimated_distance'') = Inr (Num 0)"
    by (simp add: evaluation)
  from transformation_terminates[OF a] obtain r where
    "transformTripPlanResponse ?c ?bd = Inr r"
    "length (Schedule.fuel_stops (schedule r)) = length (backendStops (getProp ?bd ''fuel_stops''))"
    "length (TripPlanResponse.fuel_stops r) = length (backendStops (getProp ?bd ''fuel_stops''))"
    "Schedule.daily_logs (schedule r) = []"
    "parseNumeric (getProp ?bd ''estimated_distance'') = Inr (Num 0) \<longrightarrow>
       Schedule.trip_distance (schedule r) = Num 0"
    by blast
  with s z a show ?thesis
    by (simp only:) blast
qed

subsection \<open>C9: the sequences the transformation leaves empty\<close>

text \<open>
  C9, as stated (a schedule is returned for every backend response object), fails: on a
  response whose \<^verbatim>\<open>estimated_distance\<close> is the number 500 the transformation throws a
  TypeError, on one whose \<^verbatim>\<open>estimated_duration\<close> is the text \<^verbatim>\<open>n.a.\<close> a RangeError, and
  on one whose \<^verbatim>\<open>fuel_stops\<close> is a text a TypeError; no schedule is returned.
\<close>

theorem transform_throws_counterexample:
  "transformTripPlanResponse (fixedClock 1700000000000)
     (JObject [(''estimated_distance'', JNumber (Num 500))]) = Inl TypeError
   \<and> transformTripPlanResponse (fixedClock 1700000000000)
     (JObject
        [(''estimated_distance'', JString ''500 miles''),
         (''estimated_duration'', JString ''n.a.'')]) = Inl RangeError
   \<and> transformTripPlanResponse (fixedClock 1700000000000)
     (JObject
        [(''estimated_distance'', JString ''500 miles''),
         (''estimated_duration'', JString ''9 hours''),
         (''fuel_stops'', JString ''none'')]) = Inl TypeError"
  by (simp add: evaluation)

text \<open>
  C9, amended. For every backend response that the trip-plan transformation accepts
  (the response is not \<^verbatim>\<open>null\<close> or \<^verbatim>\<open>undefined\<close>, its distance and duration are texts or
  absent, the completion time is a valid date, and \<^verbatim>\<open>fuel_stops\<close> is absent or an array
  of stops that are not \<^verbatim>\<open>null\<close> and have valid times), the transformation returns a
  schedule whose \<^verbatim>\<open>driving_periods\<close>, \<^verbatim>\<open>break_periods\<close>, \<^verbatim>\<open>rest_periods\<close>, \<^verbatim>\<open>daily_logs\<close> and
  \<^verbatim>\<open>rest_stops\<close> are empty and whose \<^verbatim>\<open>hos_compliance.violations\<close> is empty, whatever the
  distance, the duration and the cycle type; and every schedule it returns is such.
\<close>

theorem transform_sequences_empty:
  "(accepted clock backendData \<longrightarrow>
      (\<exists>r. transformTripPlanResponse clock backendData = Inr r
         \<and> driving_periods (schedule r) = [] \<and> break_periods (schedule r) = []
         \<and> rest_periods (schedule r) = [] \<and> Schedule.daily_logs (schedule r) = []
         \<and> rest_stops r = [] \<and> HosCompliance.violations (hos_compliance r) = []))
   \<and> (\<forall>r. transformTripPlanResponse clock backendData = Inr r \<longrightarrow>
          driving_periods (schedule r) = [] \<and> break_periods (schedule r) = []
        \<and> rest_periods (schedule r) = [] \<and> Schedule.daily_logs (schedule r) = []
        \<and> rest_stops r = [] \<and> HosCompliance.violations (hos_compliance r) = [])"
proof -
  have e: "driving_periods (schedule r) = [] \<and> break_periods (schedule r) = []
        \<and> rest_periods (schedule r) = [] \<and> Schedule.daily_logs (schedule r) = []
        \<and> rest_stops r = [] \<and> HosCompliance.violations (hos_compliance r) = []"
    if r: "transformTripPlanResponse clock backendData = Inr r" for r
    using transform_accepted[OF transform_returns[OF r]] r by auto
  have "\<exists>r. transformTripPlanResponse clock backendData = Inr r"
    if "accepted clock backendData"
    using transform_accepted[OF that] by blast
  with e show ?thesis
    by blast
qed

text \<open>The response documented in the setup guide, read at a fixed clock.\<close>

theorem transform_sequences_empty_witness:
  "accepted (fixedClock 1700000000000)
     (JObject
        [(''trip_id'', JString ''trip_52330''),
         (''cycle_type'', JString ''70_8''),
         (''estimated_duration'', JString ''2 hours 30 minutes''),
         (''estimated_distance'', JString ''85 kilometers''),
         (''fuel_stops'',
            JArray
              [JObject
                 [(''id'', JNumber (Num 1)),
                  (''name'', JString ''Shell Station Musanze''),
                  (''location'', JString ''Musanze, Rwanda''),
                  (''distance_from_start'', JNumber (Num 45))]])])
   \<and> (\<exists>r. transformTripPlanResponse (fixedClock 1700000000000)
         (JObject
            [(''trip_id'', JString ''trip_52330''),
             (''cycle_type'', JString ''70_8''),
             (''estimated_duration'', JString ''2 hours 30 minutes''),
             (''estimated_distance'', JString ''85 kilometers''),
             (''fuel_stops'',
                JArray
                  [JObject
                     [(''id'', JNumber (Num 1)),
                      (''name'', JString ''Shell Station Musanze''),
                      (''location'', JString ''Musanze, Rwanda''),
                      (''distance_from_start'', JNumber (Num 45))]])]) = Inr r
       \<and> driving_periods (schedule r) = [] \<and> break_periods (schedule r) = []
       \<and> rest_periods (schedule r) = [] \<and> Schedule.daily_logs (schedule r) = []
       \<and> rest_stops r = [] \<and> HosCompliance.violations (hos_compliance r) = [])"
proof -
  let ?c = "fixedClock 1700000000000"
  let ?bd = "JObject
        [(''trip_id'', JString ''trip_52330''),
         (''cycle_type'', JString ''70_8''),
         (''estimated_duration'', JString ''2 hours 30 minutes''),
         (''estimated_distance'', JString ''85 kilometers''),
         (''fuel_stops'',
            JArray
              [JObject
                 [(''id'', JNumber (Num 1)),
                  (''name'', JString ''Shell Station Musanze''),
                  (''location'', JString ''Musanze, Rwanda''),
                  (''distance_from_start'', JNumber (Num 45))]])]"
  have a: "accepted ?c ?bd"
    by (simp add: evaluation)
  with transform_sequences_empty[of ?c ?bd] show ?thesis
    by blast
qed

subsection \<open>C10: the fallback of the trip logs\<close>

text \<open>
  C10. For every trip id, whenever the trip-logs request fails, \<^verbatim>\<open>getTripLogs\<close> returns the
  same constant result: empty \<^verbatim>\<open>daily_logs\<close> and \<^verbatim>\<open>log_grids\<close>, no violations, and an
  \<^verbatim>\<open>hos_summary\<close> fixed at one day, 8 driving hours, 10 cycle hours used, 60 remaining and
  cycle type \<^verbatim>\<open>70_8\<close>. Only \<^verbatim>\<open>trip_id\<close> repeats the argument; one GET is issued.
\<close>

theorem getTripLogs_fallback_constant:
  "getTripLogs tripId (Rejected err) =
     ([GetTripLogs tripId],
      \<lparr> TripLogsResponse.trip_id = tripId,
        TripLogsResponse.daily_logs = [],
        log_grids = [],
        hos_summary = \<lparr>
          trip_duration_days = 1,
          HosSummary.total_driving_hours = 8,
          total_on_duty_hours = 10,
          HosSummary.cycle_hours_used = 10,
          cycle_hours_remaining = 60,
          HosSummary.cycle_type = ''70_8'',
          HosSummary.max_cycle_hours = 70 \<rparr>,
        TripLogsResponse.violations = [] \<rparr>)
   \<and> hos_summary (snd (getTripLogs tripId (Rejected err)))
       = hos_summary (snd (getTripLogs otherId (Rejected otherErr)))"
  by (simp add: getTripLogs_def)

end
